theory Spec2Isabelle
  imports Complex_Main "HOL-Library.Sublist" "HOL-Library.Log_Nat" "HOL-Library.Multiset"
begin

section \<open>Python values and strings\<close>

text \<open>
  The routes work on JSON-shaped data. A scalar JSON value is a string, a number, a
  boolean or null. Python keeps integers exact and unbounded and floats as binary64, so a
  number carries its kind. A float is represented by the rational it denotes.
  Characters are code points; \<open>str.lower\<close> is modelled on the ASCII letters.
\<close>

datatype pynum = PyInt int | PyFloat rat

datatype pyval = PStr string | PNum pynum | PBool bool | PNone

datatype py_error = AttributeError | TypeError | ValueError | ZeroDivisionError | KeyError

type_synonym pydict = "string \<rightharpoonup> pyval"

text \<open>\<open>d.get(k, default)\<close>\<close>

definition dict_get :: "pydict \<Rightarrow> string \<Rightarrow> pyval \<Rightarrow> pyval" where
  "dict_get d k dflt = (case d k of Some v \<Rightarrow> v | None \<Rightarrow> dflt)"

definition lower_char :: "char \<Rightarrow> char" where
  "lower_char c =
     (case map_of (zip ''ABCDEFGHIJKLMNOPQRSTUVWXYZ'' ''abcdefghijklmnopqrstuvwxyz'') c of
        Some l \<Rightarrow> l
      | None \<Rightarrow> c)"

definition lower :: "string \<Rightarrow> string" where
  "lower s = map lower_char s"

text \<open>\<open>v.lower()\<close>: only a \<open>str\<close> has the method.\<close>

definition py_lower :: "pyval \<Rightarrow> py_error + string" where
  "py_lower v = (case v of PStr s \<Rightarrow> Inr (lower s) | _ \<Rightarrow> Inl AttributeError)"

text \<open>\<open>sub in s\<close> on strings: \<open>sub\<close> occurs in \<open>s\<close> as a contiguous run.\<close>

fun str_contains :: "string \<Rightarrow> string \<Rightarrow> bool" where
  "str_contains sub [] = (sub = [])"
| "str_contains sub (c # cs) = (prefix sub (c # cs) \<or> str_contains sub cs)"


section \<open>Transaction classifier (routes/banking.py)\<close>

definition ESSENTIAL_CATEGORIES :: "string list" where
  "ESSENTIAL_CATEGORIES =
     [''groceries'', ''supermarket'', ''grocery'',
      ''rent'', ''mortgage'', ''housing'',
      ''utilities'', ''electric'', ''gas'', ''water'', ''internet'',
      ''insurance'', ''health insurance'', ''car insurance'',
      ''healthcare'', ''medical'', ''pharmacy'', ''doctor'',
      ''transportation'', ''fuel'', ''gas station'', ''public transit'',
      ''childcare'', ''education'']"

text \<open>
  The keyword loop of \<open>categorize_transaction\<close>: \<open>is_essential\<close> starts False and the
  first keyword found in the name or in the category sets it and breaks.
\<close>

fun essential_loop :: "string list \<Rightarrow> string \<Rightarrow> string \<Rightarrow> bool" where
  "essential_loop [] name category = False"
| "essential_loop (keyword # rest) name category =
     (if str_contains keyword name \<or> str_contains keyword category then True
      else essential_loop rest name category)"

definition categorize_transaction :: "pydict \<Rightarrow> py_error + pydict" where
  "categorize_transaction transaction =
     (case py_lower (dict_get transaction ''name'' (PStr '''')) of
        Inl e \<Rightarrow> Inl e
      | Inr name \<Rightarrow>
     (case py_lower (dict_get transaction ''category'' (PStr '''')) of
        Inl e \<Rightarrow> Inl e
      | Inr category \<Rightarrow>
          let is_essential = essential_loop ESSENTIAL_CATEGORIES name category;
              category_type = (if is_essential then ''essential'' else ''non-essential'')
          in Inr (transaction(''is_essential'' \<mapsto> PBool is_essential,
                              ''category_type'' \<mapsto> PStr category_type))))"


section \<open>Properties of the classifier\<close>

lemma dict_get_upd_other:
  "k \<noteq> k' \<Longrightarrow> dict_get (d(k' \<mapsto> v)) k dflt = dict_get d k dflt"
  by (simp add: dict_get_def)

lemma categorize_transaction_cases:
  assumes "categorize_transaction t = Inr t'"
  obtains name category where
    "py_lower (dict_get t ''name'' (PStr '''')) = Inr name"
    "py_lower (dict_get t ''category'' (PStr '''')) = Inr category"
    "t' = t(''is_essential'' \<mapsto> PBool (essential_loop ESSENTIAL_CATEGORIES name category),
            ''category_type'' \<mapsto> PStr (if essential_loop ESSENTIAL_CATEGORIES name category
                                          then ''essential'' else ''non-essential''))"
  using assms unfolding categorize_transaction_def Let_def
  by (auto split: sum.splits)

text \<open>The classifier returns whenever the name and the category are strings or absent.\<close>

definition str_or_absent :: "pydict \<Rightarrow> string \<Rightarrow> bool" where
  "str_or_absent d k = (case d k of None \<Rightarrow> True | Some (PStr s) \<Rightarrow> True | Some _ \<Rightarrow> False)"

lemma categorize_transaction_total:
  assumes "str_or_absent t ''name''" and "str_or_absent t ''category''"
  shows "\<exists>t'. categorize_transaction t = Inr t'"
  using assms
  unfolding categorize_transaction_def str_or_absent_def dict_get_def py_lower_def Let_def
  by (auto split: option.splits pyval.splits)

text \<open>
  C9. Classification is idempotent: the classifier applied to a transaction it has
  classified returns that transaction again, so in particular the same \<open>is_essential\<close>.
\<close>

theorem categorize_transaction_idempotent:
  assumes "categorize_transaction t = Inr t'"
  shows "categorize_transaction t' = Inr t' \<and>
         (\<exists>b. t' ''is_essential'' = Some (PBool b))"
proof -
  from assms obtain name category where
    n: "py_lower (dict_get t ''name'' (PStr '''')) = Inr name" and
    c: "py_lower (dict_get t ''category'' (PStr '''')) = Inr category" and
    t': "t' = t(''is_essential'' \<mapsto> PBool (essential_loop ESSENTIAL_CATEGORIES name category),
            ''category_type'' \<mapsto> PStr (if essential_loop ESSENTIAL_CATEGORIES name category
                                          then ''essential'' else ''non-essential''))"
    by (rule categorize_transaction_cases)
  have n': "dict_get t' ''name'' (PStr '''') = dict_get t ''name'' (PStr '''')"
    unfolding t' by (simp add: dict_get_def)
  have c': "dict_get t' ''category'' (PStr '''') = dict_get t ''category'' (PStr '''')"
    unfolding t' by (simp add: dict_get_def)
  have "categorize_transaction t' =
        Inr (t'(''is_essential'' \<mapsto> PBool (essential_loop ESSENTIAL_CATEGORIES name category),
            ''category_type'' \<mapsto> PStr (if essential_loop ESSENTIAL_CATEGORIES name category
                                          then ''essential'' else ''non-essential'')))"
    unfolding categorize_transaction_def n' c' n c by (simp add: Let_def)
  also have "\<dots> = Inr t'"
    unfolding t' by (simp add: fun_eq_iff)
  finally have "categorize_transaction t' = Inr t'" .
  moreover have "\<exists>b. t' ''is_essential'' = Some (PBool b)"
    unfolding t' by simp
  ultimately show ?thesis by blast
qed

definition netflix_tx :: pydict where
  "netflix_tx = [''name'' \<mapsto> PStr ''Netflix'', ''category'' \<mapsto> PStr ''Subscriptions'',
                 ''amount'' \<mapsto> PNum (PyFloat (1599 / 100))]"

definition netflix_classified :: pydict where
  "netflix_classified = netflix_tx(''is_essential'' \<mapsto> PBool False,
                                   ''category_type'' \<mapsto> PStr ''non-essential'')"

lemma categorize_netflix: "categorize_transaction netflix_tx = Inr netflix_classified"
  by (simp add: categorize_transaction_def netflix_tx_def netflix_classified_def dict_get_def
      py_lower_def lower_def lower_char_def ESSENTIAL_CATEGORIES_def)

theorem categorize_transaction_idempotent_witness:
  "categorize_transaction netflix_tx = Inr netflix_classified \<and>
   categorize_transaction netflix_classified = Inr netflix_classified \<and>
   netflix_classified ''is_essential'' = Some (PBool False)"
  using categorize_transaction_idempotent [OF categorize_netflix] categorize_netflix
  by (simp add: netflix_classified_def)

text \<open>
  C10. The classifier's output has every key of its input, with the value unchanged for
  every key but \<open>is_essential\<close> and \<open>category_type\<close>; these two are the only keys it adds
  or overwrites.
\<close>

theorem categorize_transaction_frame:
  assumes "categorize_transaction t = Inr t'"
  shows "dom t' = dom t \<union> {''is_essential'', ''category_type''} \<and>
         (\<forall>k. k \<noteq> ''is_essential'' \<and> k \<noteq> ''category_type'' \<longrightarrow> t' k = t k) \<and>
         (\<exists>b. t' ''is_essential'' = Some (PBool b) \<and>
              t' ''category_type'' = Some (PStr (if b then ''essential'' else ''non-essential'')))"
proof -
  from assms obtain name category where
    t': "t' = t(''is_essential'' \<mapsto> PBool (essential_loop ESSENTIAL_CATEGORIES name category),
            ''category_type'' \<mapsto> PStr (if essential_loop ESSENTIAL_CATEGORIES name category
                                          then ''essential'' else ''non-essential''))"
    by (rule categorize_transaction_cases)
  have "dom t' = dom t \<union> {''is_essential'', ''category_type''}"
    unfolding t' by auto
  moreover have "\<forall>k. k \<noteq> ''is_essential'' \<and> k \<noteq> ''category_type'' \<longrightarrow> t' k = t k"
    unfolding t' by simp
  moreover have "\<exists>b. t' ''is_essential'' = Some (PBool b) \<and>
              t' ''category_type'' = Some (PStr (if b then ''essential'' else ''non-essential''))"
    unfolding t' by simp
  ultimately show ?thesis by blast
qed

definition stale_tx :: pydict where
  "stale_tx = [''name'' \<mapsto> PStr ''Rent Payment'', ''date'' \<mapsto> PStr ''2025-01-01'',
               ''is_essential'' \<mapsto> PBool False]"

definition stale_classified :: pydict where
  "stale_classified = stale_tx(''is_essential'' \<mapsto> PBool True,
                               ''category_type'' \<mapsto> PStr ''essential'')"

lemma categorize_stale: "categorize_transaction stale_tx = Inr stale_classified"
  by (simp add: categorize_transaction_def stale_tx_def stale_classified_def dict_get_def
      py_lower_def lower_def lower_char_def ESSENTIAL_CATEGORIES_def)

theorem categorize_transaction_frame_witness:
  "categorize_transaction stale_tx = Inr stale_classified \<and>
   dom stale_classified = dom stale_tx \<union> {''is_essential'', ''category_type''} \<and>
   stale_classified ''name'' = stale_tx ''name'' \<and>
   stale_classified ''date'' = stale_tx ''date'' \<and>
   stale_classified ''is_essential'' = Some (PBool True)"
  using categorize_transaction_frame [OF categorize_stale] categorize_stale
  by (simp add: stale_classified_def)


section \<open>Python numbers\<close>

text \<open>
  A float is a binary64 number: every float operation returns the exact result rounded to
  the nearest number with a 53-bit significand, ties to the even significand. The
  exponent range is not bounded here: overflow to infinity, NaN and subnormal numbers
  are outside the model.
\<close>

definition pow2 :: "int \<Rightarrow> rat" where
  "pow2 e = (if 0 \<le> e then 2 ^ nat e else 1 / 2 ^ nat (- e))"

text \<open>\<open>ilog2 x\<close> is the exponent of the power of two at or below a positive \<open>x\<close>.\<close>

definition ilog2 :: "rat \<Rightarrow> int" where
  "ilog2 x = (let (p, q) = quotient_of x; d = bitlen p - bitlen q
              in if pow2 d \<le> x then d else d - 1)"

definition round_half_even :: "rat \<Rightarrow> int" where
  "round_half_even x =
     (let f = \<lfloor>x\<rfloor>; d = x - of_int f
      in if d < 1 / 2 then f else if 1 / 2 < d then f + 1 else if even f then f else f + 1)"

definition fl :: "rat \<Rightarrow> rat" where
  "fl x = (if x = 0 then 0
           else let s = pow2 (ilog2 \<bar>x\<bar> - 52) in of_int (round_half_even (x / s)) * s)"

fun value_of :: "pynum \<Rightarrow> rat" where
  "value_of (PyInt i) = of_int i"
| "value_of (PyFloat r) = r"

text \<open>\<open>float(n)\<close>, the conversion Python applies to an int operand of a float operation.\<close>

fun to_float :: "pynum \<Rightarrow> rat" where
  "to_float (PyInt i) = fl (of_int i)"
| "to_float (PyFloat r) = r"

text \<open>The float a decimal literal of the source denotes.\<close>

definition py_float :: "rat \<Rightarrow> pynum" where
  "py_float r = PyFloat (fl r)"

fun num_add :: "pynum \<Rightarrow> pynum \<Rightarrow> pynum" where
  "num_add (PyInt a) (PyInt b) = PyInt (a + b)"
| "num_add a b = PyFloat (fl (to_float a + to_float b))"

fun num_sub :: "pynum \<Rightarrow> pynum \<Rightarrow> pynum" where
  "num_sub (PyInt a) (PyInt b) = PyInt (a - b)"
| "num_sub a b = PyFloat (fl (to_float a - to_float b))"

fun num_mul :: "pynum \<Rightarrow> pynum \<Rightarrow> pynum" where
  "num_mul (PyInt a) (PyInt b) = PyInt (a * b)"
| "num_mul a b = PyFloat (fl (to_float a * to_float b))"

text \<open>\<open>a / b\<close>: true division, a float also for two ints (correctly rounded).\<close>

fun num_truediv :: "pynum \<Rightarrow> pynum \<Rightarrow> py_error + pynum" where
  "num_truediv (PyInt a) (PyInt b) =
     (if b = 0 then Inl ZeroDivisionError else Inr (PyFloat (fl (of_int a / of_int b))))"
| "num_truediv a b =
     (if value_of b = 0 then Inl ZeroDivisionError
      else Inr (PyFloat (fl (to_float a / to_float b))))"

fun num_abs :: "pynum \<Rightarrow> pynum" where
  "num_abs (PyInt i) = PyInt \<bar>i\<bar>"
| "num_abs (PyFloat r) = PyFloat \<bar>r\<bar>"

text \<open>
  \<open>round(x, n)\<close> for \<open>n \<ge> 0\<close>: an int is returned as it is; a float is rounded to \<open>n\<close>
  decimals on its exact value, ties to even, and the decimal is read back as a float.
\<close>

fun py_round :: "pynum \<Rightarrow> nat \<Rightarrow> pynum" where
  "py_round (PyInt i) n = PyInt i"
| "py_round (PyFloat r) n = PyFloat (fl (of_int (round_half_even (r * 10 ^ n)) / 10 ^ n))"

text \<open>\<open>sum(xs)\<close> and a running \<open>+=\<close> from 0: left to right.\<close>

definition py_sum :: "pynum list \<Rightarrow> pynum" where
  "py_sum xs = foldl num_add (PyInt 0) xs"

text \<open>\<open>abs(v)\<close>; a bool is the int 0 or 1.\<close>

fun py_abs :: "pyval \<Rightarrow> py_error + pynum" where
  "py_abs (PNum n) = Inr (num_abs n)"
| "py_abs (PBool b) = Inr (PyInt (if b then 1 else 0))"
| "py_abs (PStr s) = Inl TypeError"
| "py_abs PNone = Inl TypeError"

text \<open>Truth value of a value in a condition.\<close>

fun py_truthy :: "pyval \<Rightarrow> bool" where
  "py_truthy (PStr s) = (s \<noteq> [])"
| "py_truthy (PNum n) = (value_of n \<noteq> 0)"
| "py_truthy (PBool b) = b"
| "py_truthy PNone = False"



subsection \<open>Rounding error of a float operation\<close>







lemma fl_zero: "fl 0 = 0"
  by (simp add: fl_def)


section \<open>Insertion-ordered dicts\<close>

text \<open>
  A dict whose order matters is the list of its items in insertion order. Two keys are
  the same key when they are equal in Python: \<open>1\<close>, \<open>1.0\<close> and \<open>True\<close> are one key. The
  functions take the map \<open>nk\<close> from a key to what identifies it.
\<close>

datatype dict_key = KStr string | KNum rat | KNone

fun py_key :: "pyval \<Rightarrow> dict_key" where
  "py_key (PStr s) = KStr s"
| "py_key (PNum n) = KNum (value_of n)"
| "py_key (PBool b) = KNum (if b then 1 else 0)"
| "py_key PNone = KNone"

text \<open>\<open>k in d\<close>\<close>

fun od_contains :: "('k \<Rightarrow> 'n) \<Rightarrow> 'k \<Rightarrow> ('k \<times> 'v) list \<Rightarrow> bool" where
  "od_contains nk k [] = False"
| "od_contains nk k ((k', v) # d) = (nk k' = nk k \<or> od_contains nk k d)"

text \<open>\<open>d[k]\<close>, None standing for KeyError\<close>

fun od_get :: "('k \<Rightarrow> 'n) \<Rightarrow> 'k \<Rightarrow> ('k \<times> 'v) list \<Rightarrow> 'v option" where
  "od_get nk k [] = None"
| "od_get nk k ((k', v) # d) = (if nk k' = nk k then Some v else od_get nk k d)"

text \<open>\<open>d[k] = v\<close>: a present key keeps its place and its key object, a new one goes last.\<close>

fun od_set :: "('k \<Rightarrow> 'n) \<Rightarrow> 'k \<Rightarrow> 'v \<Rightarrow> ('k \<times> 'v) list \<Rightarrow> ('k \<times> 'v) list" where
  "od_set nk k v [] = [(k, v)]"
| "od_set nk k v ((k', v') # d) =
     (if nk k' = nk k then (k', v) # d else (k', v') # od_set nk k v d)"

text \<open>
  The counting idiom of both routes:
  \<^verbatim>\<open>if k not in d: d[k] = 0\<close> followed by \<^verbatim>\<open>d[k] += amount\<close>.
\<close>

definition od_add :: "('k \<Rightarrow> 'n) \<Rightarrow> 'k \<Rightarrow> pynum \<Rightarrow> ('k \<times> pynum) list \<Rightarrow>
    py_error + ('k \<times> pynum) list" where
  "od_add nk k amount d =
     (let d1 = (if \<not> od_contains nk k d then od_set nk k (PyInt 0) d else d)
      in case od_get nk k d1 of
           None \<Rightarrow> Inl KeyError
         | Some v \<Rightarrow> Inr (od_set nk k (num_add v amount) d1))"



section \<open>Spending analyzer (routes/banking.py)\<close>

record spending_analysis =
  total_spent :: pynum
  essential_spent :: pynum
  non_essential_spent :: pynum
  essential_percent :: pynum
  non_essential_percent :: pynum
  category_breakdown :: "(pyval \<times> pynum) list"

text \<open>The four variables the loop of \<open>analyze_spending\<close> updates.\<close>

record spending_vars =
  v_total_spent :: pynum
  v_essential_spent :: pynum
  v_non_essential_spent :: pynum
  v_category_breakdown :: "(pyval \<times> pynum) list"

definition spending_step :: "pydict \<Rightarrow> spending_vars \<Rightarrow> py_error + spending_vars" where
  "spending_step tx s =
     (case py_abs (dict_get tx ''amount'' (PNum (PyInt 0))) of
        Inl e \<Rightarrow> Inl e
      | Inr amount \<Rightarrow>
          let s1 = s\<lparr>v_total_spent := num_add (v_total_spent s) amount\<rparr>;
              s2 = (if py_truthy (dict_get tx ''is_essential'' (PBool False))
                    then s1\<lparr>v_essential_spent := num_add (v_essential_spent s1) amount\<rparr>
                    else s1\<lparr>v_non_essential_spent := num_add (v_non_essential_spent s1) amount\<rparr>);
              cat = dict_get tx ''category'' (PStr ''Other'')
          in case od_add py_key cat amount (v_category_breakdown s2) of
               Inl e \<Rightarrow> Inl e
             | Inr cb \<Rightarrow> Inr (s2\<lparr>v_category_breakdown := cb\<rparr>))"

fun spending_loop :: "pydict list \<Rightarrow> spending_vars \<Rightarrow> py_error + spending_vars" where
  "spending_loop [] s = Inr s"
| "spending_loop (tx # txs) s =
     (case spending_step tx s of Inl e \<Rightarrow> Inl e | Inr s' \<Rightarrow> spending_loop txs s')"

text \<open>\<open>round((part / total_spent * 100) if total_spent > 0 else 0, 1)\<close>\<close>

definition percent_of :: "pynum \<Rightarrow> pynum \<Rightarrow> py_error + pynum" where
  "percent_of part whole =
     (if 0 < value_of whole
      then (case num_truediv part whole of
              Inl e \<Rightarrow> Inl e
            | Inr q \<Rightarrow> Inr (py_round (num_mul q (PyInt 100)) 1))
      else Inr (py_round (PyInt 0) 1))"

text \<open>
  \<open>sorted(d.items(), key=lambda x: x[1], reverse=True)\<close>: stable, greatest value first,
  items of equal value in the order of the dict.
\<close>

definition sorted_by_value_desc :: "('k \<times> pynum) list \<Rightarrow> ('k \<times> pynum) list" where
  "sorted_by_value_desc items = sort_key (\<lambda>x. - value_of (snd x)) items"

definition analyze_spending :: "pydict list \<Rightarrow> py_error + spending_analysis" where
  "analyze_spending transactions =
     (case spending_loop transactions
             \<lparr>v_total_spent = PyInt 0, v_essential_spent = PyInt 0,
              v_non_essential_spent = PyInt 0, v_category_breakdown = []\<rparr> of
        Inl e \<Rightarrow> Inl e
      | Inr s \<Rightarrow>
     (case percent_of (v_essential_spent s) (v_total_spent s) of
        Inl e \<Rightarrow> Inl e
      | Inr ep \<Rightarrow>
     (case percent_of (v_non_essential_spent s) (v_total_spent s) of
        Inl e \<Rightarrow> Inl e
      | Inr np \<Rightarrow>
          Inr \<lparr>total_spent = py_round (v_total_spent s) 2,
               essential_spent = py_round (v_essential_spent s) 2,
               non_essential_spent = py_round (v_non_essential_spent s) 2,
               essential_percent = ep,
               non_essential_percent = np,
               category_breakdown =
                 map (\<lambda>(k, v). (k, py_round v 2))
                   (sorted_by_value_desc (v_category_breakdown s))\<rparr>)))"

text \<open>\<open>[categorize_transaction(tx) for tx in transactions]\<close>, as in \<open>get_spending\<close>.\<close>

fun categorize_each :: "pydict list \<Rightarrow> py_error + pydict list" where
  "categorize_each [] = Inr []"
| "categorize_each (tx # txs) =
     (case categorize_transaction tx of
        Inl e \<Rightarrow> Inl e
      | Inr c \<Rightarrow> (case categorize_each txs of Inl e \<Rightarrow> Inl e | Inr cs \<Rightarrow> Inr (c # cs)))"

definition classify_and_analyze :: "pydict list \<Rightarrow> py_error + spending_analysis" where
  "classify_and_analyze transactions =
     (case categorize_each transactions of
        Inl e \<Rightarrow> Inl e
      | Inr categorized \<Rightarrow> analyze_spending categorized)"

definition scenario_transactions :: "pydict list" where
  "scenario_transactions =
     [[''name'' \<mapsto> PStr ''Whole Foods Market'', ''category'' \<mapsto> PStr ''Groceries'',
       ''amount'' \<mapsto> PNum (py_float (15632 / 100))],
      [''name'' \<mapsto> PStr ''Netflix'', ''category'' \<mapsto> PStr ''Subscriptions'',
       ''amount'' \<mapsto> PNum (py_float (1599 / 100))],
      [''name'' \<mapsto> PStr ''Rent Payment'', ''category'' \<mapsto> PStr ''Housing'',
       ''amount'' \<mapsto> PNum (py_float 1500)]]"

subsection \<open>What the analysis is stated against\<close>

definition tx_amount :: "pydict \<Rightarrow> py_error + pynum" where
  "tx_amount tx = py_abs (dict_get tx ''amount'' (PNum (PyInt 0)))"

definition tx_flagged :: "pydict \<Rightarrow> bool" where
  "tx_flagged tx = py_truthy (dict_get tx ''is_essential'' (PBool False))"

definition tx_category :: "pydict \<Rightarrow> pyval" where
  "tx_category tx = dict_get tx ''category'' (PStr ''Other'')"




text \<open>The effect of the counting idiom on the items.\<close>

fun od_accumulate :: "('k \<Rightarrow> 'n) \<Rightarrow> 'k \<Rightarrow> pynum \<Rightarrow> ('k \<times> pynum) list \<Rightarrow> ('k \<times> pynum) list" where
  "od_accumulate nk k a [] = [(k, num_add (PyInt 0) a)]"
| "od_accumulate nk k a ((k', v) # d) =
     (if nk k' = nk k then (k', num_add v a) # d else (k', v) # od_accumulate nk k a d)"

lemma od_add_accumulate: "od_add nk k a d = Inr (od_accumulate nk k a d)"
proof (induction d)
  case Nil
  show ?case by (simp add: od_add_def)
next
  case (Cons kv d)
  obtain k' v where kv: "kv = (k', v)" by (cases kv)
  show ?case
  proof (cases "nk k' = nk k")
    case True
    then show ?thesis by (simp add: kv od_add_def)
  next
    case False
    with Cons show ?thesis
      by (auto simp: kv od_add_def Let_def split: option.splits if_splits)
  qed
qed

















lemma spending_step_Inr:
  "spending_step tx s = Inr s' \<longleftrightarrow>
     (\<exists>a. tx_amount tx = Inr a \<and>
        s' = \<lparr>v_total_spent = num_add (v_total_spent s) a,
              v_essential_spent =
                (if tx_flagged tx then num_add (v_essential_spent s) a else v_essential_spent s),
              v_non_essential_spent =
                (if tx_flagged tx then v_non_essential_spent s
                 else num_add (v_non_essential_spent s) a),
              v_category_breakdown =
                od_accumulate py_key (tx_category tx) a (v_category_breakdown s)\<rparr>)"
  unfolding spending_step_def tx_amount_def tx_flagged_def tx_category_def
  by (cases s) (auto simp: Let_def od_add_accumulate split: sum.splits)

lemma spending_step_Inl:
  "spending_step tx s = Inl e \<longleftrightarrow> tx_amount tx = Inl e"
  unfolding spending_step_def tx_amount_def
  by (auto simp: Let_def od_add_accumulate split: sum.splits)



lemma spending_loop_amounts:
  "spending_loop txs s = Inr s' \<Longrightarrow> \<forall>tx\<in>set txs. \<exists>a. tx_amount tx = Inr a"
proof (induction txs arbitrary: s)
  case Nil
  show ?case by simp
next
  case (Cons tx txs)
  then show ?case
    by (auto simp: spending_step_Inr split: sum.splits)
qed












subsection \<open>Accumulated rounding error\<close>





























subsection \<open>The two percentages of the spending analysis\<close>






















text \<open>
  C8. Classifying and then analyzing the three transactions of the scenario gives
  \<open>total_spent\<close> 1672.31, \<open>essential_spent\<close> 1656.32, \<open>non_essential_spent\<close> 15.99,
  \<open>essential_percent\<close> 99.0 and \<open>non_essential_percent\<close> 1.0.
\<close>

theorem scenario_analysis:
  "classify_and_analyze scenario_transactions =
     Inr \<lparr>total_spent = py_float (167231 / 100),
          essential_spent = py_float (165632 / 100),
          non_essential_spent = py_float (1599 / 100),
          essential_percent = py_float 99,
          non_essential_percent = py_float 1,
          category_breakdown =
            [(PStr ''Housing'', py_float 1500),
             (PStr ''Groceries'', py_float (15632 / 100)),
             (PStr ''Subscriptions'', py_float (1599 / 100))]\<rparr>"
  by code_simp


section \<open>News source credibility (routes/news.py)\<close>

definition CREDIBLE_SOURCES :: "string \<Rightarrow> string list" where
  "CREDIBLE_SOURCES tier =
     (if tier = ''top_tier''
        then [''Reuters'', ''Bloomberg'', ''Wall Street Journal'', ''Financial Times'',
              ''Associated Press'', ''CNBC'']
      else if tier = ''secondary''
        then [''MarketWatch'', ''Seeking Alpha'', ''Yahoo Finance'', ''Investopedia'', ''Barrons'']
      else if tier = ''crypto''
        then [''CoinDesk'', ''The Block'', ''Decrypt'', ''Bitcoin Magazine'', ''Cointelegraph'']
      else [])"

text \<open>
  One loop of \<open>get_source_credibility\<close>: True when the loop returns its tier, at the first
  \<open>src\<close> whose lower-cased name occurs in \<open>source_lower\<close>.
\<close>

fun tier_loop :: "string list \<Rightarrow> string \<Rightarrow> bool" where
  "tier_loop [] source_lower = False"
| "tier_loop (src # rest) source_lower =
     (if str_contains (lower src) source_lower then True else tier_loop rest source_lower)"

definition get_source_credibility :: "string \<Rightarrow> string" where
  "get_source_credibility source =
     (let source_lower = lower source
      in if tier_loop (CREDIBLE_SOURCES ''top_tier'') source_lower then ''high''
         else if tier_loop (CREDIBLE_SOURCES ''secondary'') source_lower then ''medium''
         else if tier_loop (CREDIBLE_SOURCES ''crypto'') source_lower then ''crypto''
         else ''unknown'')"

text \<open>
  A source names a tier when the lower-cased name of some outlet of the tier is a
  contiguous part of the lower-cased source.
\<close>

definition names_tier :: "string \<Rightarrow> string \<Rightarrow> bool" where
  "names_tier source tier =
     (\<exists>src\<in>set (CREDIBLE_SOURCES tier). sublist (lower src) (lower source))"

lemma str_contains_sublist: "str_contains sub s \<longleftrightarrow> sublist sub s"
  by (induction s) (auto simp: sublist_Cons_right)

lemma tier_loop_iff:
  "tier_loop srcs source_lower \<longleftrightarrow> (\<exists>src\<in>set srcs. sublist (lower src) source_lower)"
  by (induction srcs) (auto simp: str_contains_sublist)

text \<open>
  C5. The three tiers are tested in the order top-tier, secondary, crypto and the first
  tier the source names decides: \<open>high\<close>, \<open>medium\<close>, \<open>crypto\<close>, and \<open>unknown\<close> when it
  names none. So a source naming a top-tier and a crypto outlet is \<open>high\<close>;
  \<open>Reuters Crypto Desk\<close> is \<open>high\<close> and \<open>CoinDesk Markets\<close> is \<open>crypto\<close>.
\<close>

theorem get_source_credibility_priority:
  "get_source_credibility source =
     (if names_tier source ''top_tier'' then ''high''
      else if names_tier source ''secondary'' then ''medium''
      else if names_tier source ''crypto'' then ''crypto''
      else ''unknown'') \<and>
   (names_tier source ''top_tier'' \<and> names_tier source ''crypto'' \<longrightarrow>
      get_source_credibility source = ''high'') \<and>
   get_source_credibility ''Reuters Crypto Desk'' = ''high'' \<and>
   get_source_credibility ''CoinDesk Markets'' = ''crypto''"
proof -
  have 1: "get_source_credibility source =
     (if names_tier source ''top_tier'' then ''high''
      else if names_tier source ''secondary'' then ''medium''
      else if names_tier source ''crypto'' then ''crypto''
      else ''unknown'')"
    unfolding get_source_credibility_def names_tier_def Let_def tier_loop_iff ..
  have 2: "get_source_credibility ''Reuters Crypto Desk'' = ''high''"
    by (simp add: get_source_credibility_def CREDIBLE_SOURCES_def lower_def lower_char_def)
  have 3: "get_source_credibility ''CoinDesk Markets'' = ''crypto''"
    by (simp add: get_source_credibility_def CREDIBLE_SOURCES_def lower_def lower_char_def)
  from 1 2 3 show ?thesis by simp
qed

lemma names_tier_code:
  "names_tier source tier = tier_loop (CREDIBLE_SOURCES tier) (lower source)"
  by (simp add: names_tier_def tier_loop_iff)

theorem get_source_credibility_priority_witness:
  "names_tier ''CNBC x Cointelegraph'' ''top_tier'' \<and>
   names_tier ''CNBC x Cointelegraph'' ''crypto'' \<and>
   get_source_credibility ''CNBC x Cointelegraph'' = ''high''"
proof -
  have t: "names_tier ''CNBC x Cointelegraph'' ''top_tier''"
    by (simp add: names_tier_code CREDIBLE_SOURCES_def lower_def lower_char_def)
  have c: "names_tier ''CNBC x Cointelegraph'' ''crypto''"
    by (simp add: names_tier_code CREDIBLE_SOURCES_def lower_def lower_char_def)
  from get_source_credibility_priority [of "''CNBC x Cointelegraph''"] t c show ?thesis
    by blast
qed


section \<open>Wallet assets (routes/blockchain.py)\<close>

subsection \<open>\<open>int(v)\<close>\<close>

definition is_space :: "char \<Rightarrow> bool" where
  "is_space c = (c \<in> set [CHR 0x09, CHR 0x0A, CHR 0x0B, CHR 0x0C, CHR 0x0D, CHR '' ''])"

definition strip :: "string \<Rightarrow> string" where
  "strip s = rev (dropWhile is_space (rev (dropWhile is_space s)))"

definition digit_val :: "char \<Rightarrow> nat option" where
  "digit_val c = map_of (zip ''0123456789'' [0, 1, 2, 3, 4, 5, 6, 7, 8, 9]) c"

text \<open>The digits after the first one; a single underscore may stand between two digits.\<close>

fun parse_digits :: "string \<Rightarrow> nat \<Rightarrow> nat option" where
  "parse_digits [] acc = Some acc"
| "parse_digits (c # cs) acc =
     (if c = CHR ''_''
      then (case cs of
              [] \<Rightarrow> None
            | d # ds \<Rightarrow> (case digit_val d of
                           None \<Rightarrow> None
                         | Some v \<Rightarrow> parse_digits ds (10 * acc + v)))
      else (case digit_val c of
              None \<Rightarrow> None
            | Some v \<Rightarrow> parse_digits cs (10 * acc + v)))"

definition parse_unsigned :: "string \<Rightarrow> nat option" where
  "parse_unsigned s =
     (case s of
        [] \<Rightarrow> None
      | c # cs \<Rightarrow> (case digit_val c of None \<Rightarrow> None | Some v \<Rightarrow> parse_digits cs v))"

text \<open>A decimal literal as \<open>int\<close> reads it: blanks around it, a sign, digits.\<close>

definition parse_int :: "string \<Rightarrow> int option" where
  "parse_int s =
     (case strip s of
        [] \<Rightarrow> None
      | c # cs \<Rightarrow>
          if c = CHR ''-'' then map_option (\<lambda>n. - int n) (parse_unsigned cs)
          else if c = CHR ''+'' then map_option int (parse_unsigned cs)
          else map_option int (parse_unsigned (c # cs)))"

fun py_int :: "pyval \<Rightarrow> py_error + int" where
  "py_int (PStr s) = (case parse_int s of None \<Rightarrow> Inl ValueError | Some i \<Rightarrow> Inr i)"
| "py_int (PNum (PyInt i)) = Inr i"
| "py_int (PNum (PyFloat r)) = Inr (if 0 \<le> r then \<lfloor>r\<rfloor> else \<lceil>r\<rceil>)"
| "py_int (PBool b) = Inr (if b then 1 else 0)"
| "py_int PNone = Inl TypeError"

subsection \<open>The collaborators\<close>

text \<open>
  What \<open>requests.get(...).json()\<close> gives: an exception, or the parsed body. A route that
  fetches takes the network as the function from the address asked to that outcome.
\<close>

datatype 'a fetched = Failed | Json 'a

text \<open>
  The \<open>result\<close> of a token-transfer reply: the list of events, or anything else (an error
  text, nothing), on which the loop raises or does not run.
\<close>

datatype tokentx_result = Events "pydict list" | NoEvents

record tokentx_body =
  tx_status :: pyval
  tx_result :: tokentx_result

record network =
  etherscan_balance :: "string \<Rightarrow> pydict fetched"
  polygonscan_balance :: "string \<Rightarrow> pydict fetched"
  etherscan_tokentx :: "string \<Rightarrow> tokentx_body fetched"

text \<open>The body of \<open>get_eth_balance\<close> and \<open>get_polygon_balance\<close> after the request.\<close>

definition native_balance :: "string \<Rightarrow> string \<Rightarrow> pydict fetched \<Rightarrow> pydict option" where
  "native_balance chain symbol reply =
     (case reply of
        Failed \<Rightarrow> None
      | Json data \<Rightarrow>
          if dict_get data ''status'' PNone = PStr ''1''
          then (case data ''result'' of
                  None \<Rightarrow> None
                | Some v \<Rightarrow>
                    (case py_int v of
                       Inl e \<Rightarrow> None
                     | Inr balance_wei \<Rightarrow>
                         (case num_truediv (PyInt balance_wei) (py_float (10 ^ 18)) of
                            Inl e \<Rightarrow> None
                          | Inr balance \<Rightarrow>
                              Some [''chain'' \<mapsto> PStr chain, ''symbol'' \<mapsto> PStr symbol,
                                    ''balance'' \<mapsto> PNum balance,
                                    ''balance_raw'' \<mapsto> PNum (PyInt balance_wei)])))
          else None)"

text \<open>The invocations of the collaborators, in order.\<close>

datatype invocation =
  Get_eth_balance string | Get_polygon_balance string | Get_eth_tokens string
  | Get_defi_positions string

definition get_eth_balance ::
    "network \<Rightarrow> string \<Rightarrow> invocation list \<Rightarrow> pydict option \<times> invocation list" where
  "get_eth_balance net address calls =
     (native_balance ''Ethereum'' ''ETH'' (etherscan_balance net address),
      calls @ [Get_eth_balance address])"

definition get_polygon_balance ::
    "network \<Rightarrow> string \<Rightarrow> invocation list \<Rightarrow> pydict option \<times> invocation list" where
  "get_polygon_balance net address calls =
     (native_balance ''Polygon'' ''MATIC'' (polygonscan_balance net address),
      calls @ [Get_polygon_balance address])"

text \<open>The token dict of a transfer event; \<open>int\<close> of its decimals can raise.\<close>

definition token_of :: "pydict \<Rightarrow> py_error + pydict" where
  "token_of tx =
     (case py_int (dict_get tx ''tokenDecimal'' (PNum (PyInt 18))) of
        Inl e \<Rightarrow> Inl e
      | Inr d \<Rightarrow>
          Inr [''symbol'' \<mapsto> dict_get tx ''tokenSymbol'' (PStr ''UNKNOWN''),
               ''name'' \<mapsto> dict_get tx ''tokenName'' (PStr ''Unknown Token''),
               ''contract'' \<mapsto> dict_get tx ''contractAddress'' (PStr ''''),
               ''decimals'' \<mapsto> PNum (PyInt d)])"

fun token_loop ::
    "pydict list \<Rightarrow> (pyval \<times> pydict) list \<Rightarrow> py_error + (pyval \<times> pydict) list" where
  "token_loop [] tokens = Inr tokens"
| "token_loop (tx # txs) tokens =
     (let token_symbol = dict_get tx ''tokenSymbol'' (PStr ''UNKNOWN'')
      in if \<not> od_contains py_key token_symbol tokens
         then (case token_of tx of
                 Inl e \<Rightarrow> Inl e
               | Inr token \<Rightarrow> token_loop txs (od_set py_key token_symbol token tokens))
         else token_loop txs tokens)"

text \<open>
  The body of \<open>get_eth_tokens\<close> after the request; any exception ends in the empty list.
\<close>

definition eth_tokens :: "tokentx_body fetched \<Rightarrow> pydict list" where
  "eth_tokens reply =
     (case reply of
        Failed \<Rightarrow> []
      | Json data \<Rightarrow>
          if tx_status data = PStr ''1''
          then (case tx_result data of
                  NoEvents \<Rightarrow> []
                | Events result \<Rightarrow>
                    if result \<noteq> []
                    then (case token_loop (take 50 result) [] of
                            Inl e \<Rightarrow> []
                          | Inr tokens \<Rightarrow> map snd tokens)
                    else [])
          else [])"

definition get_eth_tokens ::
    "network \<Rightarrow> string \<Rightarrow> invocation list \<Rightarrow> pydict list \<times> invocation list" where
  "get_eth_tokens net address calls =
     (eth_tokens (etherscan_tokentx net address), calls @ [Get_eth_tokens address])"

definition get_defi_positions ::
    "string \<Rightarrow> invocation list \<Rightarrow> pydict list \<times> invocation list" where
  "get_defi_positions address calls = ([], calls @ [Get_defi_positions address])"

record wallet_assets =
  native_balances :: "pydict list"
  tokens :: "pydict list"
  defi_positions :: "pydict list"

datatype wallet_response =
  Response_400 string
  | Response_200 string wallet_assets

text \<open>
  \<open>get_wallet_assets\<close>. Its collaborators catch their own exceptions, so the handler
  that answers 500 is never entered.
\<close>

definition get_wallet_assets ::
    "network \<Rightarrow> string \<Rightarrow> invocation list \<Rightarrow> wallet_response \<times> invocation list" where
  "get_wallet_assets net address calls =
     (if address = [] \<or> length address \<noteq> 42 \<or> \<not> prefix ''0x'' address
      then (Response_400 ''Invalid wallet address. Must be 42 characters starting with 0x'', calls)
      else
        let (eth_balance, calls1) = get_eth_balance net address calls;
            (polygon_balance, calls2) = get_polygon_balance net address calls1;
            (tokens, calls3) = get_eth_tokens net address calls2;
            (defi, calls4) = get_defi_positions address calls3;
            native_balances =
              (case eth_balance of None \<Rightarrow> [] | Some b \<Rightarrow> [b]) @
              (case polygon_balance of None \<Rightarrow> [] | Some b \<Rightarrow> [b])
        in (Response_200 address
              \<lparr>native_balances = native_balances, tokens = tokens, defi_positions = defi\<rparr>,
            calls4))"

subsection \<open>Address validation\<close>

lemma get_wallet_assets_accepts:
  assumes "length address = 42" and "prefix ''0x'' address"
  shows "snd (get_wallet_assets net address calls) =
    calls @ [Get_eth_balance address, Get_polygon_balance address, Get_eth_tokens address,
             Get_defi_positions address]"
proof -
  from assms have "address \<noteq> []" by auto
  with assms show ?thesis
    by (simp add: get_wallet_assets_def get_eth_balance_def get_polygon_balance_def
        get_eth_tokens_def get_defi_positions_def)
qed

text \<open>
  C4. An address that is not 42 characters long or does not begin with \<open>0x\<close> is answered
  with the 400 rejection, and the list of collaborator invocations is as it was: none of
  the balance, token and DeFi collaborators is invoked.
\<close>

theorem get_wallet_assets_rejects:
  assumes "length address \<noteq> 42 \<or> \<not> prefix ''0x'' address"
  shows "get_wallet_assets net address calls =
    (Response_400 ''Invalid wallet address. Must be 42 characters starting with 0x'', calls)"
  using assms by (auto simp: get_wallet_assets_def)

definition offline :: network where
  "offline = \<lparr>etherscan_balance = (\<lambda>address. Failed),
              polygonscan_balance = (\<lambda>address. Failed),
              etherscan_tokentx = (\<lambda>address. Failed)\<rparr>"

theorem get_wallet_assets_rejects_witness:
  "length ''0x1234'' \<noteq> 42 \<and>
   get_wallet_assets offline ''0x1234'' [] =
    (Response_400 ''Invalid wallet address. Must be 42 characters starting with 0x'', [])"
proof -
  have short: "length ''0x1234'' \<noteq> 42 \<or> \<not> prefix ''0x'' ''0x1234''"
    by simp
  from get_wallet_assets_rejects [OF short] show ?thesis
    by simp
qed

subsection \<open>Token compilation\<close>































section \<open>Portfolio summary (trading.py)\<close>

record holding =
  symbol :: string
  name :: string
  quantity :: pynum
  avg_cost :: pynum
  current_price :: pynum
  market_value :: pynum
  gain_loss :: pynum
  gain_loss_percent :: pynum
  type :: string

text \<open>The holdings list written in \<open>get_portfolio\<close>.\<close>

definition mock_holdings :: "holding list" where
  "mock_holdings =
     [\<lparr>symbol = ''AAPL'', name = ''Apple Inc.'', quantity = PyInt 15,
       avg_cost = py_float (17850 / 100), current_price = py_float (18592 / 100),
       market_value = py_float (278880 / 100), gain_loss = py_float (11130 / 100),
       gain_loss_percent = py_float (416 / 100), type = ''stock''\<rparr>,
      \<lparr>symbol = ''MSFT'', name = ''Microsoft Corporation'', quantity = PyInt 10,
       avg_cost = py_float 380, current_price = py_float (41550 / 100),
       market_value = py_float 4155, gain_loss = py_float 355,
       gain_loss_percent = py_float (934 / 100), type = ''stock''\<rparr>,
      \<lparr>symbol = ''GOOGL'', name = ''Alphabet Inc.'', quantity = PyInt 8,
       avg_cost = py_float (14025 / 100), current_price = py_float (15230 / 100),
       market_value = py_float (121840 / 100), gain_loss = py_float (9640 / 100),
       gain_loss_percent = py_float (859 / 100), type = ''stock''\<rparr>,
      \<lparr>symbol = ''SPY'', name = ''SPDR S&P 500 ETF'', quantity = PyInt 20,
       avg_cost = py_float 450, current_price = py_float (47825 / 100),
       market_value = py_float 9565, gain_loss = py_float 565,
       gain_loss_percent = py_float (628 / 100), type = ''etf''\<rparr>,
      \<lparr>symbol = ''QQQ'', name = ''Invesco QQQ Trust'', quantity = PyInt 12,
       avg_cost = py_float 390, current_price = py_float (42580 / 100),
       market_value = py_float (510960 / 100), gain_loss = py_float (42960 / 100),
       gain_loss_percent = py_float (918 / 100), type = ''etf''\<rparr>,
      \<lparr>symbol = ''VTI'', name = ''Vanguard Total Stock Market ETF'', quantity = PyInt 25,
       avg_cost = py_float 220, current_price = py_float (24530 / 100),
       market_value = py_float (613250 / 100), gain_loss = py_float (63250 / 100),
       gain_loss_percent = py_float (1150 / 100), type = ''etf''\<rparr>]"

text \<open>\<open>sum(h['market_value'] for h in holdings)\<close>\<close>

definition total_value_of :: "holding list \<Rightarrow> pynum" where
  "total_value_of hs = py_sum (map market_value hs)"

text \<open>\<open>sum(h['quantity'] * h['avg_cost'] for h in holdings)\<close>\<close>

definition total_cost_of :: "holding list \<Rightarrow> pynum" where
  "total_cost_of hs = py_sum (map (\<lambda>h. num_mul (quantity h) (avg_cost h)) hs)"

text \<open>The loop that sums the market value per asset type.\<close>

fun allocation_loop ::
    "holding list \<Rightarrow> (string \<times> pynum) list \<Rightarrow> py_error + (string \<times> pynum) list" where
  "allocation_loop [] alloc = Inr alloc"
| "allocation_loop (h # hs) alloc =
     (case od_add (\<lambda>k. k) (type h) (market_value h) alloc of
        Inl e \<Rightarrow> Inl e
      | Inr alloc' \<Rightarrow> allocation_loop hs alloc')"

text \<open>\<open>{k: round(v / total_value * 100, 1) for k, v in allocation.items()}\<close>\<close>

fun allocation_percent ::
    "(string \<times> pynum) list \<Rightarrow> pynum \<Rightarrow> py_error + (string \<times> pynum) list" where
  "allocation_percent [] tv = Inr []"
| "allocation_percent ((k, v) # rest) tv =
     (case num_truediv v tv of
        Inl e \<Rightarrow> Inl e
      | Inr q \<Rightarrow>
          (case allocation_percent rest tv of
             Inl e \<Rightarrow> Inl e
           | Inr ps \<Rightarrow> Inr ((k, py_round (num_mul q (PyInt 100)) 1) # ps)))"

record portfolio =
  total_value :: pynum
  total_cost :: pynum
  total_gain_loss :: pynum
  total_gain_loss_percent :: pynum
  day_change :: pynum
  day_change_percent :: pynum
  cash_balance :: pynum

record portfolio_response =
  success :: bool
  portfolio :: portfolio
  holdings :: "holding list"
  allocation :: "(string \<times> pynum) list"

text \<open>
  \<open>get_portfolio\<close> from its totals on, for a holdings list \<open>hs\<close>. No division is guarded.
\<close>

definition portfolio_summary :: "holding list \<Rightarrow> py_error + portfolio_response" where
  "portfolio_summary hs =
     (let tv = total_value_of hs;
          tc = total_cost_of hs;
          total_gain = num_sub tv tc
      in case allocation_loop hs [] of
           Inl e \<Rightarrow> Inl e
         | Inr alloc \<Rightarrow>
        (case allocation_percent alloc tv of
           Inl e \<Rightarrow> Inl e
         | Inr alloc_percent \<Rightarrow>
        (case num_truediv total_gain tc of
           Inl e \<Rightarrow> Inl e
         | Inr q \<Rightarrow>
             Inr \<lparr>success = True,
                  portfolio =
                    \<lparr>total_value = py_round tv 2,
                     total_cost = py_round tc 2,
                     total_gain_loss = py_round total_gain 2,
                     total_gain_loss_percent = py_round (num_mul q (PyInt 100)) 2,
                     day_change = py_float (23450 / 100),
                     day_change_percent = py_float (52 / 100),
                     cash_balance = py_float 1250\<rparr>,
                  holdings = hs,
                  allocation = alloc_percent\<rparr>)))"

datatype portfolio_reply = Portfolio_400 string | Portfolio_200 portfolio_response

definition get_portfolio :: "string \<Rightarrow> py_error + portfolio_reply" where
  "get_portfolio access_token =
     (if access_token = [] then Inr (Portfolio_400 ''access_token is required'')
      else case portfolio_summary mock_holdings of
             Inl e \<Rightarrow> Inl e
           | Inr r \<Rightarrow> Inr (Portfolio_200 r))"













subsection \<open>Allocation percentages\<close>














text \<open>The summary of the holdings list written in the route.\<close>

definition mock_summary :: portfolio_response where
  "mock_summary =
     \<lparr>success = True,
      portfolio =
        \<lparr>total_value = py_float (289693 / 10),
         total_cost = py_float (267795 / 10),
         total_gain_loss = py_float (21898 / 10),
         total_gain_loss_percent = py_float (818 / 100),
         day_change = py_float (23450 / 100),
         day_change_percent = py_float (52 / 100),
         cash_balance = py_float 1250\<rparr>,
      holdings = mock_holdings,
      allocation = [(''stock'', py_float (282 / 10)), (''etf'', py_float (718 / 10))]\<rparr>"

lemma portfolio_summary_mock: "portfolio_summary mock_holdings = Inr mock_summary"
  by code_simp

text \<open>The reply of the route, for any access token.\<close>

lemma get_portfolio_mock:
  "access_token \<noteq> [] \<Longrightarrow> get_portfolio access_token = Inr (Portfolio_200 mock_summary)"
  by (simp add: get_portfolio_def portfolio_summary_mock)



end
